theory Spec2Isabelle
  imports Main "HOL-Library.Sublist" "HOL-Library.Word"
begin

section \<open>Python values as \<^verbatim>\<open>json.load\<close> builds them\<close>

text \<open>
  \<^verbatim>\<open>json.load\<close> returns \<^verbatim>\<open>None\<close>, a \<^verbatim>\<open>bool\<close>, an \<^verbatim>\<open>int\<close>,
  a \<^verbatim>\<open>float\<close>, a \<^verbatim>\<open>str\<close>, a \<^verbatim>\<open>list\<close> or a \<^verbatim>\<open>dict\<close> with
  \<^verbatim>\<open>str\<close> keys. The objects form a tree: nothing is shared, so the in-place mutation of
  the script is modelled by returning the updated value.

  A \<^verbatim>\<open>float\<close> is kept as the 64 bits of its IEEE 754 double; the script never computes
  with one. A \<^verbatim>\<open>str\<close> is kept as the bytes of its UTF-8 form; the only string the script
  looks for is ASCII, and an ASCII string occurs in a text exactly where its bytes occur
  in the UTF-8 form of the text. A \<^verbatim>\<open>dict\<close> is kept as the list of its items in
  insertion order; a Python \<^verbatim>\<open>dict\<close> holds every key at most once.
\<close>

datatype json =
    JNull
  | JBool bool
  | JInt int
  | JFloat "64 word"
  | JStr string
  | JList "json list"
  | JDict "(string \<times> json) list"

datatype error =
    FileNotFoundError
  | IsADirectoryError
  | PermissionError
  | UnicodeDecodeError
  | JSONDecodeError
  | RecursionError
  | TypeError
  | KeyError
  | UnicodeEncodeError
  | ValueError

section \<open>The three Python operations of the loop\<close>

text \<open>
  \<^verbatim>\<open>k in c\<close> for a \<^verbatim>\<open>str\<close> \<open>k\<close>: key membership on a \<^verbatim>\<open>dict\<close>, membership by
  \<^verbatim>\<open>==\<close> on a \<^verbatim>\<open>list\<close> (a \<^verbatim>\<open>str\<close> equals only an equal \<^verbatim>\<open>str\<close>), substring test
  on a \<^verbatim>\<open>str\<close>; \<^verbatim>\<open>None\<close>, \<^verbatim>\<open>bool\<close>, \<^verbatim>\<open>int\<close> and \<^verbatim>\<open>float\<close> raise
  \<^verbatim>\<open>TypeError: argument of type ... is not iterable\<close>.
\<close>

fun py_contains :: "string \<Rightarrow> json \<Rightarrow> error + bool" where
  "py_contains k (JDict kvs) = Inr (k \<in> set (map fst kvs))"
| "py_contains k (JList xs) = Inr (JStr k \<in> set xs)"
| "py_contains k (JStr s) = Inr (sublist k s)"
| "py_contains k JNull = Inl TypeError"
| "py_contains k (JBool b) = Inl TypeError"
| "py_contains k (JInt i) = Inl TypeError"
| "py_contains k (JFloat x) = Inl TypeError"

text \<open>
  \<^verbatim>\<open>del c[k]\<close> for a \<^verbatim>\<open>str\<close> \<open>k\<close>: a \<^verbatim>\<open>dict\<close> drops the item of that key and keeps
  the others in their order, or raises \<^verbatim>\<open>KeyError\<close> when the key is missing; a
  \<^verbatim>\<open>list\<close> raises \<^verbatim>\<open>TypeError\<close> (indices must be integers), every other value raises
  \<^verbatim>\<open>TypeError\<close> (no item deletion).
\<close>

fun py_delitem :: "json \<Rightarrow> string \<Rightarrow> error + json" where
  "py_delitem (JDict kvs) k =
     (if k \<in> set (map fst kvs) then Inr (JDict (filter (\<lambda>kv. fst kv \<noteq> k) kvs))
      else Inl KeyError)"
| "py_delitem (JList xs) k = Inl TypeError"
| "py_delitem (JStr s) k = Inl TypeError"
| "py_delitem JNull k = Inl TypeError"
| "py_delitem (JBool b) k = Inl TypeError"
| "py_delitem (JInt i) k = Inl TypeError"
| "py_delitem (JFloat x) k = Inl TypeError"

text \<open>
  \<^verbatim>\<open>for qa in data\<close>: a \<^verbatim>\<open>list\<close> yields its elements, a \<^verbatim>\<open>dict\<close> its keys, a
  \<^verbatim>\<open>str\<close> its one-character strings; the other values are not iterable.
\<close>

fun py_iter :: "json \<Rightarrow> error + json list" where
  "py_iter (JList xs) = Inr xs"
| "py_iter (JDict kvs) = Inr (map (\<lambda>kv. JStr (fst kv)) kvs)"
| "py_iter (JStr s) = Inr (map (\<lambda>c. JStr [c]) s)"
| "py_iter JNull = Inl TypeError"
| "py_iter (JBool b) = Inl TypeError"
| "py_iter (JInt i) = Inl TypeError"
| "py_iter (JFloat x) = Inl TypeError"

section \<open>The field stripper\<close>

text \<open>
  The body of the loop, lines 9 and 10:
  \<^verbatim>\<open>if 'embedding' in qa: del qa['embedding']\<close>.
  The result is the value \<open>qa\<close> refers to afterwards, or the exception raised.
\<close>

definition strip_qa :: "json \<Rightarrow> error + json" where
  "strip_qa qa =
     (case py_contains ''embedding'' qa of
        Inl e \<Rightarrow> Inl e
      | Inr present \<Rightarrow> if present then py_delitem qa ''embedding'' else Inr qa)"

text \<open>The loop over the elements, in order; the first exception ends it.\<close>

fun strip_loop :: "json list \<Rightarrow> error + json list" where
  "strip_loop [] = Inr []"
| "strip_loop (qa # rest) =
     (case strip_qa qa of
        Inl e \<Rightarrow> Inl e
      | Inr qa' \<Rightarrow>
          (case strip_loop rest of
             Inl e \<Rightarrow> Inl e
           | Inr rest' \<Rightarrow> Inr (qa' # rest')))"

text \<open>
  Lines 8 to 10. The elements of a \<^verbatim>\<open>list\<close> are the objects the list holds, so the
  list holds the updated elements afterwards. The keys of a \<^verbatim>\<open>dict\<close> and the characters
  of a \<^verbatim>\<open>str\<close> are immutable strings: the loop can only raise on them, and \<open>data\<close> is as
  it was.
\<close>

definition strip :: "json \<Rightarrow> error + json" where
  "strip data =
     (case py_iter data of
        Inl e \<Rightarrow> Inl e
      | Inr qas \<Rightarrow>
          (case strip_loop qas of
             Inl e \<Rightarrow> Inl e
           | Inr qas' \<Rightarrow> Inr (case data of JList xs \<Rightarrow> JList qas' | _ \<Rightarrow> data)))"

text \<open>The document of the specification: a list whose elements are all mappings.\<close>

fun is_record :: "json \<Rightarrow> bool" where
  "is_record (JDict kvs) = True"
| "is_record _ = False"

fun is_document :: "json \<Rightarrow> bool" where
  "is_document (JList rs) = list_all is_record rs"
| "is_document _ = False"

text \<open>\<^verbatim>\<open>k in r\<close> and \<^verbatim>\<open>r.get(k)\<close> on a record, to state what the stripper keeps.\<close>

fun keys :: "json \<Rightarrow> string list" where
  "keys (JDict kvs) = map fst kvs"
| "keys _ = []"

fun lookup :: "json \<Rightarrow> string \<Rightarrow> json option" where
  "lookup (JDict kvs) k = map_of kvs k"
| "lookup _ k = None"

text \<open>
  A position inside a value: a list index or a dictionary key at each level.
  \<open>get_path v p\<close> is the value found by following \<open>p\<close> from \<open>v\<close>, if there is one.
\<close>

datatype step = Idx nat | Key string

fun get_path :: "json \<Rightarrow> step list \<Rightarrow> json option" where
  "get_path v [] = Some v"
| "get_path (JList xs) (Idx i # p) = (if i < length xs then get_path (xs ! i) p else None)"
| "get_path (JDict kvs) (Key k # p) =
     (case map_of kvs k of None \<Rightarrow> None | Some v \<Rightarrow> get_path v p)"
| "get_path _ (s # p) = None"

text \<open>The items of a record, in order, and the value the body of the loop leaves.\<close>

fun items :: "json \<Rightarrow> (string \<times> json) list" where
  "items (JDict kvs) = kvs"
| "items _ = []"

fun without_embedding :: "json \<Rightarrow> json" where
  "without_embedding (JDict kvs) = JDict (filter (\<lambda>kv. fst kv \<noteq> ''embedding'') kvs)"
| "without_embedding v = v"

text \<open>
  The elements on which the body of the loop raises: those that are not iterable, a
  string with the substring, a list with the member.
\<close>

fun raises :: "json \<Rightarrow> bool" where
  "raises (JDict kvs) = False"
| "raises (JList xs) = (JStr ''embedding'' \<in> set xs)"
| "raises (JStr s) = sublist ''embedding'' s"
| "raises _ = True"

section \<open>The file and the three stages\<close>

text \<open>
  The one path the script uses, \<^verbatim>\<open>insurance_knowledge.json\<close>: \<open>None\<close> when nothing
  is there, otherwise the file with its permissions and its bytes.
\<close>

record disk_file =
  readable :: bool
  writable :: bool
  content :: string

text \<open>What is at the path: nothing, a directory, or a regular file.\<close>

datatype node = Missing | Directory | Regular disk_file

text \<open>
  The two library calls are parameters. \<open>json_load lib bytes\<close> is the result of
  \<^verbatim>\<open>json.load(f)\<close> on a file of these bytes opened as UTF-8 text.
  \<open>json_dump lib data\<close> is the text
  \<^verbatim>\<open>json.dump(data, f, ensure_ascii=False, indent=2)\<close> has written to \<open>f\<close> when it
  returns or raises, with the exception if it raises.
\<close>

record pylib =
  json_load :: "string \<Rightarrow> error + json"
  json_dump :: "json \<Rightarrow> string \<times> error option"

datatype event = OpenRead | ReadAll | CloseRead | OpenWrite | WriteText string | CloseWrite

text \<open>
  \<^verbatim>\<open>open(path, 'r', encoding='utf-8')\<close>: the file, or the exception for a missing
  path, a directory or a file without read permission.
\<close>

definition open_r :: "node \<Rightarrow> error + disk_file" where
  "open_r fs =
     (case fs of
        Missing \<Rightarrow> Inl FileNotFoundError
      | Directory \<Rightarrow> Inl IsADirectoryError
      | Regular f \<Rightarrow> if readable f then Inr f else Inl PermissionError)"

text \<open>
  \<^verbatim>\<open>open(path, 'w', encoding='utf-8')\<close>: an existing file is truncated, a missing one is
  created empty, a directory cannot be opened.
\<close>

definition open_w :: "node \<Rightarrow> error + disk_file" where
  "open_w fs =
     (case fs of
        Missing \<Rightarrow> Inr \<lparr>readable = True, writable = True, content = []\<rparr>
      | Directory \<Rightarrow> Inl IsADirectoryError
      | Regular f \<Rightarrow> if writable f then Inr (f\<lparr>content := []\<rparr>) else Inl PermissionError)"

text \<open>
  Lines 4 and 5. The result, the file afterwards and the file operations performed.
\<close>

definition loader :: "pylib \<Rightarrow> node \<Rightarrow> (error + json) \<times> node \<times> event list" where
  "loader lib fs =
     (case open_r fs of
        Inl e \<Rightarrow> (Inl e, fs, [])
      | Inr f \<Rightarrow> (json_load lib (content f), fs, [OpenRead, ReadAll, CloseRead]))"

text \<open>
  Lines 13 and 14. The file is truncated when it is opened; what \<^verbatim>\<open>json.dump\<close> wrote
  before returning or raising is in the file when the \<^verbatim>\<open>with\<close> block closes it.
\<close>

definition writer :: "pylib \<Rightarrow> json \<Rightarrow> node \<Rightarrow> (error + unit) \<times> node \<times> event list" where
  "writer lib data fs =
     (case open_w fs of
        Inl e \<Rightarrow> (Inl e, fs, [])
      | Inr f \<Rightarrow>
          (case json_dump lib data of
             (txt, err) \<Rightarrow>
               ((case err of None \<Rightarrow> Inr () | Some e \<Rightarrow> Inl e),
                Regular (f\<lparr>content := txt\<rparr>),
                [OpenWrite, WriteText txt, CloseWrite])))"

text \<open>The script: no exception is caught, the first one ends the run.\<close>

definition main :: "pylib \<Rightarrow> node \<Rightarrow> (error + unit) \<times> node \<times> event list" where
  "main lib fs =
     (case loader lib fs of
        (Inl e, fs1, ev1) \<Rightarrow> (Inl e, fs1, ev1)
      | (Inr data, fs1, ev1) \<Rightarrow>
          (case strip data of
             Inl e \<Rightarrow> (Inl e, fs1, ev1)
           | Inr data' \<Rightarrow>
               (case writer lib data' fs1 of
                  (r, fs2, ev2) \<Rightarrow> (r, fs2, ev1 @ ev2))))"

text \<open>\<^verbatim>\<open>OSError\<close> is the class of the exceptions \<^verbatim>\<open>open\<close> raises here.\<close>

fun is_OSError :: "error \<Rightarrow> bool" where
  "is_OSError FileNotFoundError = True"
| "is_OSError IsADirectoryError = True"
| "is_OSError PermissionError = True"
| "is_OSError _ = False"

text \<open>
  A stand-in for the library, to run the stages on concrete files: it reads the two
  texts \<^verbatim>\<open>[]\<close> and \<^verbatim>\<open>[3]\<close>, rejects every other text, and writes \<^verbatim>\<open>[]\<close>.
\<close>

definition stub_lib :: pylib where
  "stub_lib =
     \<lparr>json_load = (\<lambda>s. if s = ''[]'' then Inr (JList [])
                        else if s = ''[3]'' then Inr (JList [JInt 3])
                        else Inl JSONDecodeError),
      json_dump = (\<lambda>d. (''[]'', None))\<rparr>"

section \<open>Properties of the loop body\<close>

lemma filter_absent_key:
  "k \<notin> set (map fst kvs) \<Longrightarrow> filter (\<lambda>kv. fst kv \<noteq> k) kvs = kvs"
  by (induction kvs) auto

text \<open>
  On the items of a \<^verbatim>\<open>dict\<close>, where every key occurs once, dropping the items of a key
  drops one item, and the keys stay distinct.
\<close>

lemma delitem_removes_one:
  "distinct (map fst kvs) \<Longrightarrow> k \<in> set (map fst kvs) \<Longrightarrow>
     length (filter (\<lambda>kv. fst kv \<noteq> k) kvs) = length kvs - 1"
proof (induction kvs)
  case Nil
  then show ?case by simp
next
  case (Cons kv kvs)
  show ?case
  proof (cases "fst kv = k")
    case True
    with Cons.prems have "k \<notin> set (map fst kvs)" by auto
    then have "filter (\<lambda>kv. fst kv \<noteq> k) kvs = kvs" by (rule filter_absent_key)
    with True show ?thesis by simp
  next
    case False
    with Cons.prems have "k \<in> set (map fst kvs)" and "distinct (map fst kvs)" by auto
    with Cons.IH have "length (filter (\<lambda>kv. fst kv \<noteq> k) kvs) = length kvs - 1" by simp
    moreover from \<open>k \<in> set (map fst kvs)\<close> have "kvs \<noteq> []" by auto
    ultimately show ?thesis using False by (cases kvs) simp_all
  qed
qed

lemma delitem_keeps_distinct:
  "distinct (map fst kvs) \<Longrightarrow> distinct (map fst (filter (\<lambda>kv. fst kv \<noteq> k) kvs))"
  by (simp add: distinct_map_filter)

lemma strip_qa_dict: "strip_qa (JDict kvs) = Inr (without_embedding (JDict kvs))"
  by (simp add: strip_qa_def filter_absent_key)

lemma strip_qa_cases:
  "strip_qa x = (if raises x then Inl TypeError else Inr (without_embedding x))"
proof (cases x)
  case (JDict kvs)
  then show ?thesis by (simp add: strip_qa_dict)
qed (simp_all add: strip_qa_def)

lemma strip_loop_cases:
  "strip_loop xs =
     (if \<exists>x\<in>set xs. raises x then Inl TypeError else Inr (map without_embedding xs))"
  by (induction xs) (simp_all add: strip_qa_cases)

lemma strip_list_cases:
  "strip (JList xs) =
     (if \<exists>x\<in>set xs. raises x then Inl TypeError else Inr (JList (map without_embedding xs)))"
  by (simp add: strip_def strip_loop_cases)

lemma record_not_raises: "is_record x \<Longrightarrow> \<not> raises x"
  by (cases x) simp_all

lemma document_not_raises: "list_all is_record rs \<Longrightarrow> \<not> (\<exists>x\<in>set rs. raises x)"
  by (auto simp: list_all_iff record_not_raises)

lemma strip_document: "list_all is_record rs \<Longrightarrow> strip (JList rs) = Inr (JList (map without_embedding rs))"
  using document_not_raises[of rs] by (simp add: strip_list_cases)

lemma without_embedding_idem: "without_embedding (without_embedding x) = without_embedding x"
  by (cases x) simp_all

lemma without_embedding_record: "is_record x \<Longrightarrow> is_record (without_embedding x)"
  by (cases x) simp_all

lemma without_embedding_raises: "raises (without_embedding x) = raises x"
  by (cases x) simp_all

lemma map_of_filter_other:
  "k \<noteq> k' \<Longrightarrow> map_of (filter (\<lambda>kv. fst kv \<noteq> k') kvs) k = map_of kvs k"
  by (induction kvs) auto


lemma map_of_without_embedding:
  "k \<noteq> ''embedding'' \<Longrightarrow> lookup (without_embedding x) k = lookup x k"
  by (cases x) (simp_all add: map_of_filter_other)

lemma keys_without_embedding:
  "keys (without_embedding x) = filter (\<lambda>k. k \<noteq> ''embedding'') (keys x)"
  by (cases x) (simp_all add: filter_map comp_def)

lemma items_without_embedding:
  "items (without_embedding x) = filter (\<lambda>kv. fst kv \<noteq> ''embedding'') (items x)"
  by (cases x) simp_all

lemma without_embedding_absent:
  "is_record x \<Longrightarrow> ''embedding'' \<notin> set (keys x) \<Longrightarrow> without_embedding x = x"
  by (cases x) (simp_all add: filter_absent_key)

lemma document_cases: "is_document d \<Longrightarrow> \<exists>rs. d = JList rs \<and> list_all is_record rs"
  by (cases d) simp_all


lemma strip_error_is_TypeError: "strip d = Inl e \<Longrightarrow> e = TypeError"
  by (cases d) (simp_all add: strip_def strip_loop_cases split: if_splits)

lemma raises_iff:
  "raises x \<longleftrightarrow>
     x = JNull \<or> (\<exists>b. x = JBool b) \<or> (\<exists>n. x = JInt n) \<or> (\<exists>w. x = JFloat w) \<or>
     (\<exists>s. x = JStr s \<and> sublist ''embedding'' s) \<or>
     (\<exists>ys. x = JList ys \<and> JStr ''embedding'' \<in> set ys)"
  by (cases x) simp_all

lemma get_path_without_embedding:
  "k \<noteq> ''embedding'' \<Longrightarrow> get_path (without_embedding r) (Key k # p) = get_path r (Key k # p)"
  by (cases r) (simp_all add: map_of_filter_other)

lemma get_path_embedding_gone:
  "is_record r \<Longrightarrow> get_path (without_embedding r) (Key ''embedding'' # p) = None"
  by (cases r) (auto split: option.splits dest!: map_of_SomeD)

section \<open>Properties of the stages\<close>

lemma loader_events_no_write: "OpenWrite \<notin> set (snd (snd (loader lib fs)))"
  by (simp add: loader_def open_r_def split: node.splits)

lemma loader_file: "fst (snd (loader lib fs)) = fs"
  by (simp add: loader_def open_r_def split: node.splits)

text \<open>
  A run that succeeds: the file was there, readable and writable, the loader and the
  stripper returned, \<^verbatim>\<open>json.dump\<close> raised nothing, and the file holds the text it wrote.
\<close>

lemma main_success:
  assumes "fst (main lib fs) = Inr ()"
  shows "\<exists>f d d' txt. fs = Regular f \<and> readable f \<and> writable f \<and>
           json_load lib (content f) = Inr d \<and> strip d = Inr d' \<and>
           json_dump lib d' = (txt, None) \<and>
           main lib fs = (Inr (), Regular (f\<lparr>content := txt\<rparr>),
             [OpenRead, ReadAll, CloseRead, OpenWrite, WriteText txt, CloseWrite])"
  using assms
  by (auto simp: main_def loader_def writer_def open_r_def open_w_def
      split: node.splits option.splits sum.splits if_splits prod.splits)

section \<open>The stripper on documents\<close>

text \<open>
  Claim C1. On a document (a list of records) the stripper returns a list of the same
  length, and the record at each position of the result is what the body of the loop
  makes of the input record at that position: no record is added, removed or moved,
  and the empty document gives the empty document.
\<close>

theorem strip_keeps_length_and_order:
  assumes "is_document d"
  shows "\<exists>rs rs'. d = JList rs \<and> strip d = Inr (JList rs') \<and> length rs' = length rs \<and>
           (\<forall>i<length rs. is_record (rs ! i) \<and> strip_qa (rs ! i) = Inr (rs' ! i)) \<and>
           (rs = [] \<longrightarrow> rs' = [])"
proof -
  from assms obtain rs where d: "d = JList rs" and rs: "list_all is_record rs"
    using document_cases by blast
  have "strip d = Inr (JList (map without_embedding rs))"
    using rs by (simp add: d strip_document)
  moreover have "is_record (rs ! i) \<and> strip_qa (rs ! i) = Inr (map without_embedding rs ! i)"
    if "i < length rs" for i
    using that rs by (simp add: list_all_length strip_qa_cases record_not_raises)
  ultimately show ?thesis using d by simp
qed

theorem strip_keeps_length_and_order_witness:
  "is_document (JList [JDict [(''q'', JStr ''A''), (''embedding'', JList [JInt 1])],
                       JDict [(''q'', JStr ''B'')]]) \<and>
   (\<exists>rs rs'. JList [JDict [(''q'', JStr ''A''), (''embedding'', JList [JInt 1])],
                      JDict [(''q'', JStr ''B'')]] = JList rs \<and>
      strip (JList [JDict [(''q'', JStr ''A''), (''embedding'', JList [JInt 1])],
                    JDict [(''q'', JStr ''B'')]]) = Inr (JList rs') \<and>
      length rs' = length rs \<and>
      (\<forall>i<length rs. is_record (rs ! i) \<and> strip_qa (rs ! i) = Inr (rs' ! i)) \<and>
      (rs = [] \<longrightarrow> rs' = [])) \<and>
   strip (JList [JDict [(''q'', JStr ''A''), (''embedding'', JList [JInt 1])],
                 JDict [(''q'', JStr ''B'')]])
     = Inr (JList [JDict [(''q'', JStr ''A'')], JDict [(''q'', JStr ''B'')]])"
proof -
  have h: "is_document (JList [JDict [(''q'', JStr ''A''), (''embedding'', JList [JInt 1])],
                               JDict [(''q'', JStr ''B'')]])"
    by simp
  have v: "strip (JList [JDict [(''q'', JStr ''A''), (''embedding'', JList [JInt 1])],
                 JDict [(''q'', JStr ''B'')]])
     = Inr (JList [JDict [(''q'', JStr ''A'')], JDict [(''q'', JStr ''B'')]])"
    by (simp add: strip_def strip_qa_def)
  show ?thesis
    by (intro conjI) (rule h, rule strip_keeps_length_and_order [OF h], rule v)
qed

text \<open>
  Claim C2. In every record of a document the stripper drops the items of key
  \<^verbatim>\<open>embedding\<close> and nothing else: the other items are the same, in the same order,
  so every other key has the value it had and the keys keep their relative order.
\<close>

theorem strip_removes_only_embedding:
  assumes "is_document (JList rs)" and "i < length rs"
  shows "\<exists>rs'. strip (JList rs) = Inr (JList rs') \<and>
           is_record (rs' ! i) \<and>
           ''embedding'' \<notin> set (keys (rs' ! i)) \<and>
           items (rs' ! i) = filter (\<lambda>kv. fst kv \<noteq> ''embedding'') (items (rs ! i)) \<and>
           keys (rs' ! i) = filter (\<lambda>k. k \<noteq> ''embedding'') (keys (rs ! i)) \<and>
           (\<forall>k. k \<noteq> ''embedding'' \<longrightarrow> lookup (rs' ! i) k = lookup (rs ! i) k)"
proof -
  from assms(1) have rs: "list_all is_record rs" by simp
  with assms(2) have r: "is_record (rs ! i)" by (simp add: list_all_length)
  have s: "strip (JList rs) = Inr (JList (map without_embedding rs))"
    using rs by (rule strip_document)
  have n: "map without_embedding rs ! i = without_embedding (rs ! i)"
    using assms(2) by simp
  have "is_record (without_embedding (rs ! i))"
    using r by (rule without_embedding_record)
  moreover have "''embedding'' \<notin> set (keys (without_embedding (rs ! i)))"
    by (simp add: keys_without_embedding)
  ultimately show ?thesis
    using s n
    by (simp add: items_without_embedding keys_without_embedding map_of_without_embedding)
qed

theorem strip_removes_only_embedding_witness:
  "is_document (JList [JDict [(''q'', JStr ''A''), (''embedding'', JList [JInt 1])],
                       JDict [(''q'', JStr ''B'')]]) \<and>
   (0::nat) < length [JDict [(''q'', JStr ''A''), (''embedding'', JList [JInt 1])],
                      JDict [(''q'', JStr ''B'')]] \<and>
   (\<exists>rs'. strip (JList [JDict [(''q'', JStr ''A''), (''embedding'', JList [JInt 1])],
                         JDict [(''q'', JStr ''B'')]]) = Inr (JList rs') \<and>
      keys (rs' ! 0) = [''q''] \<and> lookup (rs' ! 0) ''q'' = Some (JStr ''A''))"
proof -
  let ?rs = "[JDict [(''q'', JStr ''A''), (''embedding'', JList [JInt 1])],
              JDict [(''q'', JStr ''B'')]]"
  have h: "is_document (JList ?rs)" by simp
  have l: "(0::nat) < length ?rs" by simp
  from strip_removes_only_embedding [OF h l] obtain rs'
    where s: "strip (JList ?rs) = Inr (JList rs')"
      and k: "keys (rs' ! 0) = filter (\<lambda>k. k \<noteq> ''embedding'') (keys (?rs ! 0))"
      and v: "\<forall>k. k \<noteq> ''embedding'' \<longrightarrow> lookup (rs' ! 0) k = lookup (?rs ! 0) k"
    by blast
  from k have k': "keys (rs' ! 0) = [''q'']" by simp
  from v have v': "lookup (rs' ! 0) ''q'' = Some (JStr ''A'')" by simp
  from h l s k' v' show ?thesis by blast
qed

text \<open>
  Claim C3. Stripping is idempotent on documents: the stripper returns a document,
  and stripping that document again returns it unchanged.
\<close>

theorem strip_idempotent:
  assumes "is_document d"
  shows "\<exists>d'. strip d = Inr d' \<and> is_document d' \<and> strip d' = Inr d'"
proof -
  from assms obtain rs where d: "d = JList rs" and rs: "list_all is_record rs"
    using document_cases by blast
  let ?rs' = "map without_embedding rs"
  have 1: "strip d = Inr (JList ?rs')"
    using rs by (simp add: d strip_document)
  have rs': "list_all is_record ?rs'"
    using rs by (simp add: list_all_iff without_embedding_record)
  have "strip (JList ?rs') = Inr (JList (map without_embedding ?rs'))"
    using rs' by (rule strip_document)
  then have 2: "strip (JList ?rs') = Inr (JList ?rs')"
    by (simp add: without_embedding_idem)
  from 1 2 rs' show ?thesis by simp
qed

theorem strip_idempotent_witness:
  "is_document (JList [JDict [(''q'', JStr ''A''), (''embedding'', JList [JInt 1])],
                      JDict [(''q'', JStr ''B'')]]) \<and>
   (\<exists>d'. strip (JList [JDict [(''q'', JStr ''A''), (''embedding'', JList [JInt 1])],
                      JDict [(''q'', JStr ''B'')]]) = Inr d' \<and> is_document d' \<and> strip d' = Inr d') \<and>
   strip (JList [JDict [(''q'', JStr ''A''), (''embedding'', JList [JInt 1])],
                      JDict [(''q'', JStr ''B'')]]) = Inr (JList [JDict [(''q'', JStr ''A'')], JDict [(''q'', JStr ''B'')]]) \<and>
   strip (JList [JDict [(''q'', JStr ''A'')], JDict [(''q'', JStr ''B'')]])
     = Inr (JList [JDict [(''q'', JStr ''A'')], JDict [(''q'', JStr ''B'')]])"
proof -
  have h: "is_document (JList [JDict [(''q'', JStr ''A''), (''embedding'', JList [JInt 1])],
                      JDict [(''q'', JStr ''B'')]])" by simp
  have v1: "strip (JList [JDict [(''q'', JStr ''A''), (''embedding'', JList [JInt 1])],
                      JDict [(''q'', JStr ''B'')]]) = Inr (JList [JDict [(''q'', JStr ''A'')], JDict [(''q'', JStr ''B'')]])"
    by (simp add: strip_def strip_qa_def)
  have v2: "strip (JList [JDict [(''q'', JStr ''A'')], JDict [(''q'', JStr ''B'')]])
     = Inr (JList [JDict [(''q'', JStr ''A'')], JDict [(''q'', JStr ''B'')]])"
    by (simp add: strip_def strip_qa_def)
  show ?thesis
    by (intro conjI) (rule h, rule strip_idempotent [OF h], rule v1, rule v2)
qed

text \<open>
  Claim C4. A record of the document that has no key \<^verbatim>\<open>embedding\<close> is the same
  record, at the same position, after stripping.
\<close>

theorem strip_record_without_embedding_unchanged:
  assumes "is_document (JList rs)" and "i < length rs"
    and "''embedding'' \<notin> set (keys (rs ! i))"
  shows "\<exists>rs'. strip (JList rs) = Inr (JList rs') \<and> rs' ! i = rs ! i"
proof -
  from assms(1) have rs: "list_all is_record rs" by simp
  with assms(2) have r: "is_record (rs ! i)" by (simp add: list_all_length)
  have "strip (JList rs) = Inr (JList (map without_embedding rs))"
    using rs by (rule strip_document)
  moreover have "map without_embedding rs ! i = rs ! i"
    using assms(2) without_embedding_absent [OF r assms(3)] by simp
  ultimately show ?thesis by simp
qed

theorem strip_record_without_embedding_unchanged_witness:
  "is_document (JList [JDict [(''q'', JStr ''A''), (''embedding'', JList [JInt 1])],
                       JDict [(''q'', JStr ''B'')]]) \<and>
   (1::nat) < length [JDict [(''q'', JStr ''A''), (''embedding'', JList [JInt 1])],
                      JDict [(''q'', JStr ''B'')]] \<and>
   ''embedding'' \<notin> set (keys ([JDict [(''q'', JStr ''A''), (''embedding'', JList [JInt 1])],
                                 JDict [(''q'', JStr ''B'')]] ! 1)) \<and>
   (\<exists>rs'. strip (JList [JDict [(''q'', JStr ''A''), (''embedding'', JList [JInt 1])],
                         JDict [(''q'', JStr ''B'')]]) = Inr (JList rs') \<and>
      rs' ! 1 = JDict [(''q'', JStr ''B'')])"
proof -
  let ?rs = "[JDict [(''q'', JStr ''A''), (''embedding'', JList [JInt 1])],
              JDict [(''q'', JStr ''B'')]]"
  have h: "is_document (JList ?rs)" by simp
  have l: "(1::nat) < length ?rs" by simp
  have a: "''embedding'' \<notin> set (keys (?rs ! 1))" by simp
  from strip_record_without_embedding_unchanged [OF h l a] show ?thesis
    using h l a by simp
qed

section \<open>Below the top level of a record\<close>

text \<open>
  Claim C9. Only the top-level key \<^verbatim>\<open>embedding\<close> of a record is removed. Every position
  of the document that lies under another key of a record holds after stripping what
  it held before, whatever the rest of the path is: a key \<^verbatim>\<open>embedding\<close> inside a
  nested mapping or sequence stays. Under the top-level key \<^verbatim>\<open>embedding\<close> of a record
  nothing is left.
\<close>

theorem strip_keeps_nested_embedding:
  assumes "is_document d" and "k \<noteq> ''embedding''"
  shows "\<exists>d'. strip d = Inr d' \<and>
           get_path d' (Idx i # Key k # p) = get_path d (Idx i # Key k # p) \<and>
           get_path d' (Idx i # Key ''embedding'' # p) = None"
proof -
  from assms(1) obtain rs where d: "d = JList rs" and rs: "list_all is_record rs"
    using document_cases by blast
  have s: "strip d = Inr (JList (map without_embedding rs))"
    using rs by (simp add: d strip_document)
  have "get_path (JList (map without_embedding rs)) (Idx i # Key k # p)
          = get_path (JList rs) (Idx i # Key k # p)"
    using assms(2) by (simp add: get_path_without_embedding del: get_path.simps(3))
  moreover have "get_path (JList (map without_embedding rs)) (Idx i # Key ''embedding'' # p) = None"
    using rs by (simp add: get_path_embedding_gone list_all_length del: get_path.simps(3))
  ultimately show ?thesis using s d by simp
qed

theorem strip_keeps_nested_embedding_witness:
  "is_document (JList [JDict [(''meta'', JDict [(''embedding'', JList [JInt 7])]),
                              (''embedding'', JList [JFloat 0x3FBEB851EB851EB8]),
                              (''tags'', JList [JDict [(''embedding'', JNull)]])]]) \<and>
   ''meta'' \<noteq> ''embedding'' \<and>
   (\<exists>d'. strip (JList [JDict [(''meta'', JDict [(''embedding'', JList [JInt 7])]),
                               (''embedding'', JList [JFloat 0x3FBEB851EB851EB8]),
                               (''tags'', JList [JDict [(''embedding'', JNull)]])]]) = Inr d' \<and>
      get_path d' [Idx 0, Key ''meta'', Key ''embedding''] = Some (JList [JInt 7]) \<and>
      get_path d' [Idx 0, Key ''embedding''] = None)"
proof -
  let ?d = "JList [JDict [(''meta'', JDict [(''embedding'', JList [JInt 7])]),
                          (''embedding'', JList [JFloat 0x3FBEB851EB851EB8]),
                          (''tags'', JList [JDict [(''embedding'', JNull)]])]]"
  have h: "is_document ?d" by simp
  have n: "''meta'' \<noteq> ''embedding''" by simp
  from strip_keeps_nested_embedding [OF h n, of 0 "[Key ''embedding'']"]
       strip_keeps_nested_embedding [OF h n, of 0 "[]"]
  obtain d' where s: "strip ?d = Inr d'"
    and g: "get_path d' [Idx 0, Key ''meta'', Key ''embedding'']
              = get_path ?d [Idx 0, Key ''meta'', Key ''embedding'']"
    and e: "get_path d' [Idx 0, Key ''embedding''] = None"
    by auto
  from g have g': "get_path d' [Idx 0, Key ''meta'', Key ''embedding''] = Some (JList [JInt 7])"
    by simp
  from h n s g' e show ?thesis by blast
qed

section \<open>Elements that are not mappings\<close>

text \<open>
  Claim C10. An element that is a string without the substring \<^verbatim>\<open>embedding\<close>, or a
  list without the member \<^verbatim>\<open>'embedding'\<close>, raises nothing: on it the membership test
  returns false, and it is unchanged in the result. This holds in a document whose
  other elements are records.
\<close>

theorem strip_passes_harmless_nonmappings:
  assumes "\<forall>x\<in>set xs. is_record x \<or> (\<exists>s. x = JStr s \<and> \<not> sublist ''embedding'' s)
                        \<or> (\<exists>ys. x = JList ys \<and> JStr ''embedding'' \<notin> set ys)"
  shows "\<exists>xs'. strip (JList xs) = Inr (JList xs') \<and> length xs' = length xs \<and>
           (\<forall>i<length xs. \<not> is_record (xs ! i) \<longrightarrow>
              py_contains ''embedding'' (xs ! i) = Inr False \<and> xs' ! i = xs ! i)"
proof -
  have nr: "\<not> (\<exists>x\<in>set xs. raises x)"
    using assms by (auto simp: record_not_raises)
  then have s: "strip (JList xs) = Inr (JList (map without_embedding xs))"
    by (simp add: strip_list_cases)
  have "py_contains ''embedding'' (xs ! i) = Inr False \<and> without_embedding (xs ! i) = xs ! i"
    if "i < length xs" and "\<not> is_record (xs ! i)" for i
  proof -
    from that(1) have "xs ! i \<in> set xs" by simp
    with assms that(2)
    have "(\<exists>s. xs ! i = JStr s \<and> \<not> sublist ''embedding'' s)
            \<or> (\<exists>ys. xs ! i = JList ys \<and> JStr ''embedding'' \<notin> set ys)"
      by blast
    then show ?thesis by auto
  qed
  with s show ?thesis by simp
qed

theorem strip_passes_harmless_nonmappings_witness:
  "is_record (JDict [(''q'', JStr ''A''), (''embedding'', JList [JInt 1])]) \<and>
   \<not> sublist ''embedding'' ''note'' \<and>
   JStr ''embedding'' \<notin> set [JInt 1, JStr ''x''] \<and>
   (\<exists>xs'. strip (JList [JDict [(''q'', JStr ''A''), (''embedding'', JList [JInt 1])],
                         JStr ''note'', JList [JInt 1, JStr ''x'']]) = Inr (JList xs') \<and>
      length xs' = 3 \<and>
      py_contains ''embedding'' (JStr ''note'') = Inr False \<and> xs' ! 1 = JStr ''note'' \<and>
      py_contains ''embedding'' (JList [JInt 1, JStr ''x'']) = Inr False \<and>
      xs' ! 2 = JList [JInt 1, JStr ''x''])"
proof -
  let ?xs = "[JDict [(''q'', JStr ''A''), (''embedding'', JList [JInt 1])],
              JStr ''note'', JList [JInt 1, JStr ''x'']]"
  have r: "is_record (JDict [(''q'', JStr ''A''), (''embedding'', JList [JInt 1])])"
    by simp
  have n: "\<not> sublist ''embedding'' ''note''"
    by (simp add: sublist_code)
  have m: "JStr ''embedding'' \<notin> set [JInt 1, JStr ''x'']"
    by simp
  from r n m
  have h: "\<forall>x\<in>set ?xs. is_record x \<or> (\<exists>s. x = JStr s \<and> \<not> sublist ''embedding'' s)
                  \<or> (\<exists>ys. x = JList ys \<and> JStr ''embedding'' \<notin> set ys)"
    by simp
  from strip_passes_harmless_nonmappings [OF h] obtain xs'
    where s: "strip (JList ?xs) = Inr (JList xs')"
      and l: "length xs' = length ?xs"
      and u: "\<forall>i<length ?xs. \<not> is_record (?xs ! i) \<longrightarrow>
                py_contains ''embedding'' (?xs ! i) = Inr False \<and> xs' ! i = ?xs ! i"
    by blast
  from l have l': "length xs' = 3" by simp
  have "(1::nat) < length ?xs" and "\<not> is_record (?xs ! 1)"
    by simp_all
  with u have "py_contains ''embedding'' (?xs ! 1) = Inr False \<and> xs' ! 1 = ?xs ! 1"
    by blast
  then have u1: "py_contains ''embedding'' (JStr ''note'') = Inr False \<and> xs' ! 1 = JStr ''note''"
    by simp
  have "(2::nat) < length ?xs" and "\<not> is_record (?xs ! 2)"
    by simp_all
  with u have "py_contains ''embedding'' (?xs ! 2) = Inr False \<and> xs' ! 2 = ?xs ! 2"
    by blast
  then have u2: "py_contains ''embedding'' (JList [JInt 1, JStr ''x'']) = Inr False
                   \<and> xs' ! 2 = JList [JInt 1, JStr ''x'']"
    by simp
  from r n m s l' u1 u2 show ?thesis by blast
qed

text \<open>
  Claim C8 says that a document with an element that is not a mapping makes the
  stripper fail with a \<^verbatim>\<open>TypeError\<close>. This document has the string \<^verbatim>\<open>'note'\<close> as an
  element, and the stripper returns it, with the record stripped.
\<close>

theorem nonmapping_element_no_error_counterexample:
  "JStr ''note'' \<in> set [JDict [(''q'', JStr ''A''), (''embedding'', JList [JInt 1])],
                         JStr ''note'', JList [JInt 1, JStr ''x'']] \<and>
   \<not> is_record (JStr ''note'') \<and>
   strip (JList [JDict [(''q'', JStr ''A''), (''embedding'', JList [JInt 1])],
                 JStr ''note'', JList [JInt 1, JStr ''x'']])
     = Inr (JList [JDict [(''q'', JStr ''A'')], JStr ''note'', JList [JInt 1, JStr ''x'']])"
  by (simp add: strip_def strip_qa_def sublist_code)

text \<open>
  Claim C8, as amended. The claim as stated (every element that is not a mapping makes
  the stripper fail) is false: see the document above, with a string and a list among
  its elements. What holds: the stripper fails, with \<^verbatim>\<open>TypeError\<close>, exactly on the lists
  with an element that is \<^verbatim>\<open>None\<close>, a boolean or a number, a string in which
  \<^verbatim>\<open>embedding\<close> occurs, or a list with the member \<^verbatim>\<open>'embedding'\<close>.
\<close>

theorem strip_fails_on_raising_element:
  "strip (JList xs) = Inl TypeError \<longleftrightarrow>
     (\<exists>x\<in>set xs.
        x = JNull \<or> (\<exists>b. x = JBool b) \<or> (\<exists>n. x = JInt n) \<or> (\<exists>w. x = JFloat w) \<or>
        (\<exists>s. x = JStr s \<and> sublist ''embedding'' s) \<or>
        (\<exists>ys. x = JList ys \<and> JStr ''embedding'' \<in> set ys))"
proof -
  have "strip (JList xs) = Inl TypeError \<longleftrightarrow> (\<exists>x\<in>set xs. raises x)"
    by (simp add: strip_list_cases)
  then show ?thesis by (simp only: raises_iff)
qed

theorem strip_fails_on_raising_element_witness:
  "JInt 3 \<in> set [JDict [(''q'', JStr ''A'')], JInt 3] \<and>
   strip (JList [JDict [(''q'', JStr ''A'')], JInt 3]) = Inl TypeError \<and>
   sublist ''embedding'' ''my embedding'' \<and>
   strip (JList [JStr ''my embedding'']) = Inl TypeError \<and>
   JStr ''embedding'' \<in> set [JInt 1, JStr ''embedding''] \<and>
   strip (JList [JList [JInt 1, JStr ''embedding'']]) = Inl TypeError"
proof -
  have a: "JInt 3 \<in> set [JDict [(''q'', JStr ''A'')], JInt 3]" by simp
  have b: "sublist ''embedding'' ''my embedding''" by (simp add: sublist_code)
  have c: "JStr ''embedding'' \<in> set [JInt 1, JStr ''embedding'']" by simp
  from a have 1: "strip (JList [JDict [(''q'', JStr ''A'')], JInt 3]) = Inl TypeError"
    unfolding strip_fails_on_raising_element by blast
  from b have 2: "strip (JList [JStr ''my embedding'']) = Inl TypeError"
    unfolding strip_fails_on_raising_element by simp
  from c have 3: "strip (JList [JList [JInt 1, JStr ''embedding'']]) = Inl TypeError"
    unfolding strip_fails_on_raising_element by simp
  from a 1 b 2 c 3 show ?thesis by blast
qed

section \<open>The loader and the order of the stages\<close>

text \<open>
  Claim C7. The loader fails with \<^verbatim>\<open>FileNotFoundError\<close> when the path does not exist and
  with \<^verbatim>\<open>PermissionError\<close> when the file is unreadable, both of class \<^verbatim>\<open>OSError\<close>; on
  a readable file it fails with the exception \<^verbatim>\<open>json.load\<close> raises on the content, and
  otherwise returns the document \<^verbatim>\<open>json.load\<close> returns. The file is the same afterwards
  in every case.
\<close>

theorem loader_outcomes:
  "(fs = Missing \<longrightarrow> fst (loader lib fs) = Inl FileNotFoundError \<and> is_OSError FileNotFoundError) \<and>
   (\<forall>f. fs = Regular f \<and> \<not> readable f \<longrightarrow>
      fst (loader lib fs) = Inl PermissionError \<and> is_OSError PermissionError) \<and>
   (\<forall>f e. fs = Regular f \<and> readable f \<and> json_load lib (content f) = Inl e \<longrightarrow>
      fst (loader lib fs) = Inl e) \<and>
   (\<forall>f d. fs = Regular f \<and> readable f \<and> json_load lib (content f) = Inr d \<longrightarrow>
      fst (loader lib fs) = Inr d) \<and>
   fst (snd (loader lib fs)) = fs"
  by (auto simp: loader_def open_r_def split: node.splits)

theorem loader_outcomes_witness:
  "fst (loader stub_lib Missing) = Inl FileNotFoundError \<and>
   \<not> readable \<lparr>readable = False, writable = True, content = ''[]''\<rparr> \<and>
   fst (loader stub_lib (Regular \<lparr>readable = False, writable = True, content = ''[]''\<rparr>))
     = Inl PermissionError \<and>
   readable \<lparr>readable = True, writable = True, content = ''[{''\<rparr> \<and>
   json_load stub_lib (content \<lparr>readable = True, writable = True, content = ''[{''\<rparr>)
     = Inl JSONDecodeError \<and>
   fst (loader stub_lib (Regular \<lparr>readable = True, writable = True, content = ''[{''\<rparr>))
     = Inl JSONDecodeError \<and>
   readable \<lparr>readable = True, writable = True, content = ''[3]''\<rparr> \<and>
   json_load stub_lib (content \<lparr>readable = True, writable = True, content = ''[3]''\<rparr>)
     = Inr (JList [JInt 3]) \<and>
   fst (loader stub_lib (Regular \<lparr>readable = True, writable = True, content = ''[3]''\<rparr>))
     = Inr (JList [JInt 3]) \<and>
   fst (snd (loader stub_lib (Regular \<lparr>readable = True, writable = True, content = ''[3]''\<rparr>)))
     = Regular \<lparr>readable = True, writable = True, content = ''[3]''\<rparr>"
proof -
  let ?u = "\<lparr>readable = False, writable = True, content = ''[]''\<rparr>"
  let ?b = "\<lparr>readable = True, writable = True, content = ''[{''\<rparr>"
  let ?g = "\<lparr>readable = True, writable = True, content = ''[3]''\<rparr>"
  have u: "\<not> readable ?u" by simp
  have b: "readable ?b" and b': "json_load stub_lib (content ?b) = Inl JSONDecodeError"
    by (simp_all add: stub_lib_def)
  have g: "readable ?g" and g': "json_load stub_lib (content ?g) = Inr (JList [JInt 3])"
    by (simp_all add: stub_lib_def)
  from loader_outcomes [of Missing stub_lib]
  have 1: "fst (loader stub_lib Missing) = Inl FileNotFoundError" by blast
  from loader_outcomes [of "Regular ?u" stub_lib] u
  have 2: "fst (loader stub_lib (Regular ?u)) = Inl PermissionError" by blast
  from loader_outcomes [of "Regular ?b" stub_lib] b b'
  have 3: "fst (loader stub_lib (Regular ?b)) = Inl JSONDecodeError" by blast
  from loader_outcomes [of "Regular ?g" stub_lib] g g'
  have 4: "fst (loader stub_lib (Regular ?g)) = Inr (JList [JInt 3])"
    and 5: "fst (snd (loader stub_lib (Regular ?g))) = Regular ?g" by blast+
  from 1 u 2 b b' 3 g g' 4 5 show ?thesis by blast
qed

text \<open>
  Claim C6. When the loader fails, or the stripper fails on the loaded document, the run
  ends with that exception, the file is as it was, and it has not been opened for
  writing. When the file has been opened for writing, the loader and the stripper have
  both returned, and the opening comes after the loader's operations.
\<close>

theorem failure_before_write_keeps_file:
  "(fst (loader lib fs) = Inl e \<or> (\<exists>d. fst (loader lib fs) = Inr d \<and> strip d = Inl e) \<longrightarrow>
      fst (main lib fs) = Inl e \<and> fst (snd (main lib fs)) = fs \<and>
      OpenWrite \<notin> set (snd (snd (main lib fs)))) \<and>
   (OpenWrite \<in> set (snd (snd (main lib fs))) \<longrightarrow>
      (\<exists>d d'. fst (loader lib fs) = Inr d \<and> strip d = Inr d' \<and>
         snd (snd (main lib fs)) =
           snd (snd (loader lib fs)) @ [OpenWrite, WriteText (fst (json_dump lib d')), CloseWrite]))"
proof -
  obtain r fs1 ev1 where l: "loader lib fs = (r, fs1, ev1)"
    by (cases "loader lib fs") auto
  have fs1: "fs1 = fs" using loader_file [of lib fs] l by simp
  have ev1: "OpenWrite \<notin> set ev1" using loader_events_no_write [of lib fs] l by simp
  show ?thesis
  proof (cases r)
    case (Inl e')
    with l fs1 ev1 show ?thesis by (simp add: main_def)
  next
    case (Inr d)
    show ?thesis
    proof (cases "strip d")
      case (Inl e')
      with Inr l fs1 ev1 show ?thesis by (simp add: main_def)
    next
      case sr: (Inr d')
      with Inr l fs1 ev1 show ?thesis
        by (auto simp: main_def writer_def split: sum.splits prod.splits option.splits node.splits)
    qed
  qed
qed

theorem failure_before_write_keeps_file_witness:
  "fst (loader stub_lib (Regular \<lparr>readable = True, writable = True, content = ''[{''\<rparr>))
     = Inl JSONDecodeError \<and>
   main stub_lib (Regular \<lparr>readable = True, writable = True, content = ''[{''\<rparr>)
     = (Inl JSONDecodeError, Regular \<lparr>readable = True, writable = True, content = ''[{''\<rparr>,
        [OpenRead, ReadAll, CloseRead]) \<and>
   fst (loader stub_lib (Regular \<lparr>readable = True, writable = True, content = ''[3]''\<rparr>))
     = Inr (JList [JInt 3]) \<and>
   strip (JList [JInt 3]) = Inl TypeError \<and>
   main stub_lib (Regular \<lparr>readable = True, writable = True, content = ''[3]''\<rparr>)
     = (Inl TypeError, Regular \<lparr>readable = True, writable = True, content = ''[3]''\<rparr>,
        [OpenRead, ReadAll, CloseRead]) \<and>
   OpenWrite \<in> set (snd (snd (main stub_lib
       (Regular \<lparr>readable = True, writable = True, content = ''[]''\<rparr>)))) \<and>
   (\<exists>d d'. fst (loader stub_lib (Regular \<lparr>readable = True, writable = True, content = ''[]''\<rparr>))
              = Inr d \<and> strip d = Inr d')"
proof -
  let ?b = "\<lparr>readable = True, writable = True, content = ''[{''\<rparr>"
  let ?t = "\<lparr>readable = True, writable = True, content = ''[3]''\<rparr>"
  let ?g = "\<lparr>readable = True, writable = True, content = ''[]''\<rparr>"
  have b: "fst (loader stub_lib (Regular ?b)) = Inl JSONDecodeError"
    by (simp add: loader_def open_r_def stub_lib_def)
  have t: "fst (loader stub_lib (Regular ?t)) = Inr (JList [JInt 3])"
    by (simp add: loader_def open_r_def stub_lib_def)
  have t': "strip (JList [JInt 3]) = Inl TypeError"
    by (simp add: strip_def strip_qa_def)
  have g: "OpenWrite \<in> set (snd (snd (main stub_lib (Regular ?g))))"
    by (simp add: main_def loader_def writer_def open_r_def open_w_def stub_lib_def
        strip_def)
  have eb: "snd (snd (main stub_lib (Regular ?b))) = [OpenRead, ReadAll, CloseRead]"
    by (simp add: main_def loader_def open_r_def stub_lib_def)
  have et: "snd (snd (main stub_lib (Regular ?t))) = [OpenRead, ReadAll, CloseRead]"
    by (simp add: main_def loader_def open_r_def stub_lib_def strip_def strip_qa_def)
  from failure_before_write_keeps_file [of stub_lib "Regular ?b" JSONDecodeError] b
  have "fst (main stub_lib (Regular ?b)) = Inl JSONDecodeError"
    and "fst (snd (main stub_lib (Regular ?b))) = Regular ?b" by blast+
  with eb have 1: "main stub_lib (Regular ?b) = (Inl JSONDecodeError, Regular ?b, [OpenRead, ReadAll, CloseRead])"
    by (simp add: prod_eq_iff)
  from failure_before_write_keeps_file [of stub_lib "Regular ?t" TypeError] t t'
  have "fst (main stub_lib (Regular ?t)) = Inl TypeError"
    and "fst (snd (main stub_lib (Regular ?t))) = Regular ?t" by blast+
  with et have 2: "main stub_lib (Regular ?t) = (Inl TypeError, Regular ?t, [OpenRead, ReadAll, CloseRead])"
    by (simp add: prod_eq_iff)
  from failure_before_write_keeps_file [of stub_lib "Regular ?g"] g
  have 3: "\<exists>d d'. fst (loader stub_lib (Regular ?g)) = Inr d \<and> strip d = Inr d'" by blast
  from b 1 t t' 2 g 3 show ?thesis by blast
qed

section \<open>The writer's text read back\<close>

text \<open>
  Claim C5 (the text \<^verbatim>\<open>json.dump\<close> writes, parsed again, is the stripped document) is
  not stated here. The script never reads its output back; the claim is about the
  encoder and the decoder of the library, which are the parameters \<open>json_dump\<close> and
  \<open>json_load\<close> of this model, and for the numbers of a document about the printing
  and the reading of floating-point values.
\<close>

end
